theory Spec2Isabelle
  imports Complex_Main "HOL-Library.Multiset"
begin

section \<open>Classical Chou-Fasman: data\<close>

text \<open>
  Go's \<open>float64\<close> is modelled by the reals with exact arithmetic; the propensity tables hold
  the decimal constants of the source. Go's \<open>int\<close> is modelled by the unbounded integers
  (positions are indices into a sequence held in memory, so no operation here overflows).
  A sequence is a list of one-byte characters: the residue codes are ASCII, so the byte
  length \<open>len(SEQUENCE)\<close> and the length of \<open>[]rune(SEQUENCE)\<close> are the same number.
\<close>

record Region =
  Start :: int
  End :: int

text \<open>
  The package-level variable \<open>SEQUENCE\<close> of \<open>datatype.go\<close>. Every function that reads it takes
  the process state as its first argument; the extension slot of the record stands for all
  the rest of the ambient state.
\<close>

record globals =
  SEQUENCE :: string

definition alphaParam :: "char \<rightharpoonup> real" where
  "alphaParam = map_of
    [(CHR ''A'', 1.42), (CHR ''R'', 0.98), (CHR ''N'', 0.67), (CHR ''D'', 1.01), (CHR ''C'', 0.70),
     (CHR ''Q'', 1.11), (CHR ''E'', 1.51), (CHR ''G'', 0.57), (CHR ''H'', 1.00), (CHR ''I'', 1.08),
     (CHR ''L'', 1.21), (CHR ''K'', 1.16), (CHR ''M'', 1.45), (CHR ''F'', 1.13), (CHR ''P'', 0.57),
     (CHR ''S'', 0.77), (CHR ''T'', 0.83), (CHR ''W'', 1.08), (CHR ''Y'', 0.69), (CHR ''V'', 1.06),
     (CHR ''X'', 1.00)]"

definition betaParam :: "char \<rightharpoonup> real" where
  "betaParam = map_of
    [(CHR ''A'', 0.83), (CHR ''R'', 0.93), (CHR ''N'', 0.89), (CHR ''D'', 0.54), (CHR ''C'', 1.19),
     (CHR ''Q'', 1.10), (CHR ''E'', 0.37), (CHR ''G'', 0.75), (CHR ''H'', 0.87), (CHR ''I'', 1.60),
     (CHR ''L'', 1.30), (CHR ''K'', 0.74), (CHR ''M'', 1.05), (CHR ''F'', 1.38), (CHR ''P'', 0.55),
     (CHR ''S'', 0.75), (CHR ''T'', 1.19), (CHR ''W'', 1.37), (CHR ''Y'', 1.47), (CHR ''V'', 1.70),
     (CHR ''X'', 1.00)]"

section \<open>Classical Chou-Fasman: scoring\<close>

definition ConformationParameter :: "char \<Rightarrow> string \<Rightarrow> real" where
  "ConformationParameter residue conformation =
     (if conformation = ''alpha'' then
        (case alphaParam residue of Some val \<Rightarrow> val | None \<Rightarrow> 1.0)
      else if conformation = ''beta'' then
        (case betaParam residue of Some val \<Rightarrow> val | None \<Rightarrow> 1.0)
      else 1.0)"

text \<open>The slice expression \<open>s[lo:hi]\<close> for bounds already checked to lie inside \<open>s\<close>.\<close>

definition slice :: "'a list \<Rightarrow> int \<Rightarrow> int \<Rightarrow> 'a list" where
  "slice s lo hi = take (nat (hi - lo)) (drop (nat lo) s)"

definition AverageParam :: "'a globals_scheme \<Rightarrow> Region \<Rightarrow> string \<Rightarrow> real" where
  "AverageParam g region conformation =
     (let seqRunes = SEQUENCE g in
      if Start region \<ge> End region \<or> Start region < 0 \<or> End region > int (length seqRunes)
      then 0.0
      else
        let subSeq = slice seqRunes (Start region) (End region);
            total = foldl (\<lambda>total residue. total + ConformationParameter residue conformation)
                      0.0 subSeq
        in if length subSeq = 0 then 0.0 else total / real (length subSeq))"

definition ConformationHasHigestAverage :: "'a globals_scheme \<Rightarrow> Region \<Rightarrow> string \<Rightarrow> bool" where
  "ConformationHasHigestAverage g region conformation =
     (let avg = AverageParam g region conformation;
          alphaAvg = AverageParam g region ''alpha'';
          betaAvg = AverageParam g region ''beta''
      in if conformation = ''alpha'' then avg \<ge> betaAvg
         else if conformation = ''beta'' then avg > alphaAvg
         else False)"

text \<open>
  \<open>IsNucleationRegion\<close> slices the sequence without a guard of its own. Inside
  \<open>0 \<le> Start \<le> End \<le> len\<close> the slice is the window; outside, the slice expression panics
  (or, within the spare capacity of the backing array, reads past the sequence), and the
  model returns \<open>None\<close>.
\<close>

definition IsNucleationRegion ::
  "'a globals_scheme \<Rightarrow> Region \<Rightarrow> string \<Rightarrow> int \<Rightarrow> real \<Rightarrow> bool option" where
  "IsNucleationRegion g region conformation windowThreshold minParam =
     (let seqRunes = SEQUENCE g in
      if 0 \<le> Start region \<and> Start region \<le> End region \<and> End region \<le> int (length seqRunes)
      then
        let window = slice seqRunes (Start region) (End region);
            qualified = foldl (\<lambda>qualified residue.
                          if ConformationParameter residue conformation > minParam
                          then qualified + 1 else qualified) (0::int) window
        in Some (qualified \<ge> windowThreshold \<and> ConformationHasHigestAverage g region conformation)
      else None)"

section \<open>Classical Chou-Fasman: nucleation and extension\<close>

function FindNucleationRegion_loop ::
  "'a globals_scheme \<Rightarrow> int \<Rightarrow> real \<Rightarrow> string \<Rightarrow> int \<Rightarrow> int \<Rightarrow> Region list \<Rightarrow> Region list option"
where
  "FindNucleationRegion_loop g windowThreshold minParam conformation i j nucleationRegion =
     (if j \<le> int (length (SEQUENCE g)) then
        (case IsNucleationRegion g \<lparr>Start = i, End = j\<rparr> conformation windowThreshold minParam of
           None \<Rightarrow> None
         | Some b \<Rightarrow>
             FindNucleationRegion_loop g windowThreshold minParam conformation (i + 1) (j + 1)
               (if b then nucleationRegion @ [\<lparr>Start = i, End = j\<rparr>] else nucleationRegion))
      else Some nucleationRegion)"
  by pat_completeness auto
termination
  by (relation "measure (\<lambda>(g, wt, mp, c, i, j, acc). nat (int (length (SEQUENCE g)) + 1 - j))")
     auto

declare FindNucleationRegion_loop.simps [simp del]

definition FindNucleationRegion ::
  "'a globals_scheme \<Rightarrow> int \<Rightarrow> int \<Rightarrow> real \<Rightarrow> string \<Rightarrow> Region list option" where
  "FindNucleationRegion g windowThreshold windowSize minParam conformation =
     FindNucleationRegion_loop g windowThreshold minParam conformation 0 windowSize []"

text \<open>\<open>ShiftWindow\<close> returns \<open>(Region, bool)\<close>; the region is only read when the flag is true.\<close>

definition ShiftWindow :: "'a globals_scheme \<Rightarrow> Region \<Rightarrow> char \<Rightarrow> Region option" where
  "ShiftWindow g window terminus =
     (let seqLen = int (length (SEQUENCE g)) in
      if terminus = CHR ''N'' \<and> Start window - 1 \<ge> 0
        then Some \<lparr>Start = Start window - 1, End = End window - 1\<rparr>
      else if terminus = CHR ''C'' \<and> End window + 1 \<le> seqLen
        then Some \<lparr>Start = Start window + 1, End = End window + 1\<rparr>
      else None)"

text \<open>The two inner loops of \<open>ExtendedRegions\<close>; each returns the final value of its counter.\<close>

function extend_N :: "'a globals_scheme \<Rightarrow> string \<Rightarrow> Region \<Rightarrow> int \<Rightarrow> int" where
  "extend_N g conformation shift N =
     (case ShiftWindow g shift (CHR ''N'') of
        None \<Rightarrow> N
      | Some newShift \<Rightarrow>
          if AverageParam g newShift conformation \<ge> 1.0
          then extend_N g conformation newShift (N + 1)
          else N)"
  by pat_completeness auto
termination
  by (relation "measure (\<lambda>(g, c, shift, N). nat (Start shift))")
     (auto simp: ShiftWindow_def split: if_splits)

function extend_C :: "'a globals_scheme \<Rightarrow> string \<Rightarrow> Region \<Rightarrow> int \<Rightarrow> int" where
  "extend_C g conformation shift C =
     (case ShiftWindow g shift (CHR ''C'') of
        None \<Rightarrow> C
      | Some newShift \<Rightarrow>
          if AverageParam g newShift conformation \<ge> 1.0
          then extend_C g conformation newShift (C + 1)
          else C)"
  by pat_completeness auto
termination
  by (relation "measure (\<lambda>(g, c, shift, C). nat (int (length (SEQUENCE g)) - End shift))")
     (auto simp: ShiftWindow_def split: if_splits)

declare extend_N.simps [simp del] extend_C.simps [simp del]

fun ExtendedRegions :: "'a globals_scheme \<Rightarrow> Region list \<Rightarrow> string \<Rightarrow> Region list" where
  "ExtendedRegions g [] conformation = []"
| "ExtendedRegions g (reg # regions) conformation =
     (let N = extend_N g conformation \<lparr>Start = Start reg, End = Start reg + 4\<rparr> 0;
          C = extend_C g conformation \<lparr>Start = End reg - 4, End = End reg\<rparr> 0
      in \<lparr>Start = Start reg - N, End = End reg + C\<rparr> # ExtendedRegions g regions conformation)"

definition FilterExtendedRegions ::
  "'a globals_scheme \<Rightarrow> Region list \<Rightarrow> string \<Rightarrow> real \<Rightarrow> Region list" where
  "FilterExtendedRegions g regions conformation threshold =
     (if length regions = 0 then []
      else filter (\<lambda>reg. AverageParam g reg conformation \<ge> threshold) regions)"

section \<open>Classical Chou-Fasman: merging\<close>

text \<open>
  \<open>TryMerging\<close> takes minimum and maximum through \<open>math.Min\<close> and \<open>math.Max\<close> on the
  positions converted to \<open>float64\<close> and back; the conversions are exact for positions below
  \<open>2^53\<close>, so the model takes them on the integers.
\<close>

definition TryMerging :: "Region \<Rightarrow> Region \<Rightarrow> Region option" where
  "TryMerging i j =
     (if End i \<ge> Start j
      then Some \<lparr>Start = min (Start i) (Start j), End = max (End i) (End j)\<rparr>
      else None)"

text \<open>The loop of \<open>MergeOverlappingRegions\<close> over \<open>regions[1:]\<close>, with \<open>current\<close> carried along.\<close>

fun merge_loop :: "Region \<Rightarrow> Region list \<Rightarrow> Region list \<Rightarrow> Region list" where
  "merge_loop current [] mergedRegions = mergedRegions @ [current]"
| "merge_loop current (next # rest) mergedRegions =
     (case TryMerging current next of
        Some merged \<Rightarrow> merge_loop merged rest mergedRegions
      | None \<Rightarrow> merge_loop next rest (mergedRegions @ [current]))"

text \<open>
  \<open>sort.Slice\<close> with the comparison \<open>regions[i].Start < regions[j].Start\<close> leaves the slice
  ordered by \<open>Start\<close>. It is modelled by insertion sort on the key \<open>Start\<close>, which is what
  the library runs on slices of at most twelve elements; on longer slices the library may
  order regions of equal \<open>Start\<close> differently.
\<close>

definition MergeOverlappingRegions :: "Region list \<Rightarrow> Region list" where
  "MergeOverlappingRegions regions =
     (if length regions < 2 then regions
      else
        let sorted_regions = sort_key Start regions
        in merge_loop (hd sorted_regions) (tl sorted_regions) [])"

section \<open>Classical Chou-Fasman: conflicts between conformations\<close>

definition AreOverlapping :: "Region \<Rightarrow> string \<Rightarrow> Region \<Rightarrow> string \<Rightarrow> bool" where
  "AreOverlapping reg1 conf1 reg2 conf2 \<longleftrightarrow> Start reg1 < End reg2 \<and> Start reg2 < End reg1"

definition StrongerAffinity ::
  "'a globals_scheme \<Rightarrow> Region \<Rightarrow> string \<Rightarrow> Region \<Rightarrow> string \<Rightarrow> Region" where
  "StrongerAffinity g reg1 conf1 reg2 conf2 =
     (let avg1 = AverageParam g reg1 conf1;
          avg2 = AverageParam g reg2 conf2
      in if avg1 > avg2 then reg1
         else if avg2 > avg1 then reg2
         else if conf1 = ''alpha'' then reg1
         else if conf2 = ''alpha'' then reg2
         else reg2)"

text \<open>
  The inner loop of \<open>SolveOverlaps\<close> for one \<open>reg1\<close>: true when it reaches the assignment
  \<open>shouldKeep[reg1] = false\<close> (and breaks). The test \<open>winner == reg2\<close> compares the two
  \<open>Region\<close> structs field by field.
\<close>

fun overlap_loop ::
  "'a globals_scheme \<Rightarrow> Region \<Rightarrow> string \<Rightarrow> Region list \<Rightarrow> string \<Rightarrow> bool" where
  "overlap_loop g reg1 conf1 [] conf2 = False"
| "overlap_loop g reg1 conf1 (reg2 # regions2) conf2 =
     (if AreOverlapping reg1 conf1 reg2 conf2 \<and> StrongerAffinity g reg1 conf1 reg2 conf2 = reg2
      then True
      else overlap_loop g reg1 conf1 regions2 conf2)"

text \<open>\<open>shouldKeep\<close> is a Go map keyed by the region value; a missing key reads as false.\<close>

definition SolveOverlaps ::
  "'a globals_scheme \<Rightarrow> Region list \<Rightarrow> string \<Rightarrow> Region list \<Rightarrow> string \<Rightarrow> Region list" where
  "SolveOverlaps g regions1 conf1 regions2 conf2 =
     (let shouldKeep0 = fold (\<lambda>reg1 m. m(reg1 \<mapsto> True)) regions1 (Map.empty :: Region \<rightharpoonup> bool);
          shouldKeep = fold (\<lambda>reg1 m.
                         if overlap_loop g reg1 conf1 regions2 conf2 then m(reg1 \<mapsto> False) else m)
                       regions1 shouldKeep0
      in filter (\<lambda>reg1. shouldKeep reg1 = Some True) regions1)"

section \<open>Classical Chou-Fasman: coil regions and the label string\<close>

text \<open>
  The marking loop \<open>for i := reg.Start; i < reg.End && i < seqLen; i++ { if i >= 0 { ... } }\<close>
  of \<open>FindCoilRegions\<close>.
\<close>

function mark_loop :: "bool list \<Rightarrow> int \<Rightarrow> int \<Rightarrow> int \<Rightarrow> bool list" where
  "mark_loop isPredicted i regEnd seqLen =
     (if i < regEnd \<and> i < seqLen
      then mark_loop (if i \<ge> 0 then isPredicted[nat i := True] else isPredicted)
             (i + 1) regEnd seqLen
      else isPredicted)"
  by pat_completeness auto
termination
  by (relation "measure (\<lambda>(a, i, regEnd, seqLen). nat (regEnd - i))") auto

declare mark_loop.simps [simp del]

definition mark_regions :: "Region list \<Rightarrow> int \<Rightarrow> bool list \<Rightarrow> bool list" where
  "mark_regions regions seqLen isPredicted =
     fold (\<lambda>reg a. mark_loop a (Start reg) (End reg) seqLen) regions isPredicted"

text \<open>
  The scan \<open>for i := 0; i < seqLen; i++\<close> of \<open>FindCoilRegions\<close> with its three variables,
  followed by the closing test on \<open>inCoil\<close>.
\<close>

function coil_loop ::
  "bool list \<Rightarrow> nat \<Rightarrow> Region list \<Rightarrow> bool \<Rightarrow> int \<Rightarrow> Region list" where
  "coil_loop isPredicted i coilRegions inCoil currentStart =
     (if i < length isPredicted then
        (if \<not> isPredicted ! i then
           (if \<not> inCoil
            then coil_loop isPredicted (i + 1) coilRegions True (int i)
            else coil_loop isPredicted (i + 1) coilRegions inCoil currentStart)
         else
           (if inCoil
            then coil_loop isPredicted (i + 1)
                   (coilRegions @ [\<lparr>Start = currentStart, End = int i\<rparr>]) False (- 1)
            else coil_loop isPredicted (i + 1) coilRegions inCoil currentStart))
      else
        (if inCoil
         then coilRegions @ [\<lparr>Start = currentStart, End = int (length isPredicted)\<rparr>]
         else coilRegions))"
  by pat_completeness auto
termination
  by (relation "measure (\<lambda>(a, i, rs, inCoil, cs). length a - i)") auto

declare coil_loop.simps [simp del]

definition FindCoilRegions ::
  "'a globals_scheme \<Rightarrow> Region list \<Rightarrow> Region list \<Rightarrow> Region list" where
  "FindCoilRegions g alphaFinal betaFinal =
     (let seqLen = length (SEQUENCE g) in
      if seqLen = 0 then []
      else
        let isPredicted = replicate seqLen False;
            isPredicted = mark_regions alphaFinal (int seqLen) isPredicted;
            isPredicted = mark_regions betaFinal (int seqLen) isPredicted
        in coil_loop isPredicted 0 [] False (- 1))"

text \<open>
  The painting loop of \<open>PredictSequenceFromRegions\<close> has no test \<open>i >= 0\<close>: a write at a
  negative index panics, which the model returns as \<open>None\<close>.
\<close>

function paint_loop :: "string \<Rightarrow> char \<Rightarrow> int \<Rightarrow> int \<Rightarrow> int \<Rightarrow> string option" where
  "paint_loop prediction c i regEnd seqLen =
     (if i < regEnd \<and> i < seqLen
      then (if i < 0 then None
            else paint_loop (prediction[nat i := c]) c (i + 1) regEnd seqLen)
      else Some prediction)"
  by pat_completeness auto
termination
  by (relation "measure (\<lambda>(a, c, i, regEnd, seqLen). nat (regEnd - i))") auto

declare paint_loop.simps [simp del]

fun paint_regions :: "Region list \<Rightarrow> char \<Rightarrow> int \<Rightarrow> string \<Rightarrow> string option" where
  "paint_regions [] c seqLen prediction = Some prediction"
| "paint_regions (reg # regions) c seqLen prediction =
     (case paint_loop prediction c (Start reg) (End reg) seqLen of
        None \<Rightarrow> None
      | Some prediction' \<Rightarrow> paint_regions regions c seqLen prediction')"

definition PredictSequenceFromRegions ::
  "'a globals_scheme \<Rightarrow> Region list \<Rightarrow> Region list \<Rightarrow> string option" where
  "PredictSequenceFromRegions g alphaFinal betaFinal =
     (let seqLen = length (SEQUENCE g);
          prediction = replicate seqLen (CHR ''C'')
      in case paint_regions betaFinal (CHR ''E'') (int seqLen) prediction of
           None \<Rightarrow> None
         | Some prediction' \<Rightarrow> paint_regions alphaFinal (CHR ''H'') (int seqLen) prediction')"

section \<open>Classical Chou-Fasman: the pipeline of \<open>main\<close>\<close>

text \<open>
  \<open>main\<close> from the assignment \<open>SEQUENCE = seq\<close> on: the state it leaves and the four values it
  prints. \<open>None\<close> is a run that panics.
\<close>

record prediction_output =
  alphaFinal_out :: "Region list"
  betaFinal_out :: "Region list"
  coilFinal_out :: "Region list"
  predictedSequence_out :: string

definition resolve_and_assemble ::
  "'a globals_scheme \<Rightarrow> Region list \<Rightarrow> Region list \<Rightarrow> prediction_output option" where
  "resolve_and_assemble g alphaRegions betaRegions =
     (let alphaFinal = SolveOverlaps g alphaRegions ''alpha'' betaRegions ''beta'';
          betaFinal = SolveOverlaps g betaRegions ''beta'' alphaRegions ''alpha'';
          coilFinal = FindCoilRegions g alphaFinal betaFinal
      in case PredictSequenceFromRegions g alphaFinal betaFinal of
           None \<Rightarrow> None
         | Some predictedSequence \<Rightarrow>
             Some \<lparr>alphaFinal_out = alphaFinal, betaFinal_out = betaFinal,
                   coilFinal_out = coilFinal, predictedSequence_out = predictedSequence\<rparr>)"

definition merged_regions ::
  "'a globals_scheme \<Rightarrow> int \<Rightarrow> int \<Rightarrow> real \<Rightarrow> string \<Rightarrow> real \<Rightarrow> Region list option" where
  "merged_regions g windowThreshold windowSize minParam conformation threshold =
     (case FindNucleationRegion g windowThreshold windowSize minParam conformation of
        None \<Rightarrow> None
      | Some regions \<Rightarrow>
          Some (MergeOverlappingRegions
                  (FilterExtendedRegions g (ExtendedRegions g regions conformation)
                     conformation threshold)))"

definition main :: "'a globals_scheme \<Rightarrow> string \<Rightarrow> ('a globals_scheme \<times> prediction_output) option" where
  "main g0 seq =
     (let g = g0\<lparr>SEQUENCE := seq\<rparr> in
      case FindNucleationRegion g 4 6 1.0 ''alpha'' of
        None \<Rightarrow> None
      | Some alphaRegions \<Rightarrow>
      (case FindNucleationRegion g 3 5 1.0 ''beta'' of
        None \<Rightarrow> None
      | Some betaRegions \<Rightarrow>
          let alphaRegions = ExtendedRegions g alphaRegions ''alpha'';
              betaRegions = ExtendedRegions g betaRegions ''beta'';
              alphaRegions = FilterExtendedRegions g alphaRegions ''alpha'' 1.03;
              betaRegions = FilterExtendedRegions g betaRegions ''beta'' 1.05;
              alphaRegions = MergeOverlappingRegions alphaRegions;
              betaRegions = MergeOverlappingRegions betaRegions
          in (case resolve_and_assemble g alphaRegions betaRegions of
                None \<Rightarrow> None
              | Some out \<Rightarrow> Some (g, out))))"

section \<open>Signal-refined Chou-Fasman: extension from a seed\<close>

record Propensity =
  Pa :: real
  Pb :: real

definition propensities :: "char \<rightharpoonup> Propensity" where
  "propensities = map_of
    [(CHR ''A'', \<lparr>Pa = 1.02, Pb = 0.83\<rparr>), (CHR ''R'', \<lparr>Pa = 0.98, Pb = 0.93\<rparr>),
     (CHR ''N'', \<lparr>Pa = 0.67, Pb = 0.89\<rparr>), (CHR ''D'', \<lparr>Pa = 1.01, Pb = 0.54\<rparr>),
     (CHR ''C'', \<lparr>Pa = 0.70, Pb = 1.19\<rparr>), (CHR ''E'', \<lparr>Pa = 1.51, Pb = 0.37\<rparr>),
     (CHR ''Q'', \<lparr>Pa = 1.11, Pb = 1.10\<rparr>), (CHR ''G'', \<lparr>Pa = 0.57, Pb = 0.75\<rparr>),
     (CHR ''H'', \<lparr>Pa = 1.00, Pb = 0.87\<rparr>), (CHR ''I'', \<lparr>Pa = 1.08, Pb = 1.60\<rparr>),
     (CHR ''L'', \<lparr>Pa = 1.21, Pb = 1.30\<rparr>), (CHR ''K'', \<lparr>Pa = 1.16, Pb = 0.74\<rparr>),
     (CHR ''M'', \<lparr>Pa = 1.45, Pb = 1.05\<rparr>), (CHR ''F'', \<lparr>Pa = 1.13, Pb = 1.38\<rparr>),
     (CHR ''P'', \<lparr>Pa = 0.57, Pb = 0.55\<rparr>), (CHR ''S'', \<lparr>Pa = 0.77, Pb = 0.75\<rparr>),
     (CHR ''T'', \<lparr>Pa = 0.83, Pb = 1.19\<rparr>), (CHR ''W'', \<lparr>Pa = 1.08, Pb = 1.37\<rparr>),
     (CHR ''Y'', \<lparr>Pa = 0.69, Pb = 1.47\<rparr>), (CHR ''V'', \<lparr>Pa = 1.06, Pb = 1.70\<rparr>)]"

text \<open>
  The arrays \<open>paVals\<close> and \<open>pbVals\<close> that \<open>predictStructure\<close> fills from its argument \<open>seq\<close>;
  a residue without an entry keeps the zero of \<open>make\<close>.
\<close>

definition paVals :: "string \<Rightarrow> real list" where
  "paVals seq = map (\<lambda>r. case propensities r of Some p \<Rightarrow> Pa p | None \<Rightarrow> 0) seq"

definition pbVals :: "string \<Rightarrow> real list" where
  "pbVals seq = map (\<lambda>r. case propensities r of Some p \<Rightarrow> Pb p | None \<Rightarrow> 0) seq"

text \<open>An indexed read \<open>xs[i]\<close>: \<open>None\<close> is the panic of an index out of range.\<close>

definition index :: "'a list \<Rightarrow> int \<Rightarrow> 'a option" where
  "index xs i = (if 0 \<le> i \<and> i < int (length xs) then Some (xs ! nat i) else None)"

definition avg4 :: "real list \<Rightarrow> int \<Rightarrow> int \<Rightarrow> int \<Rightarrow> int \<Rightarrow> real option" where
  "avg4 scores a b c d =
     Option.bind (index scores a) (\<lambda>x.
     Option.bind (index scores b) (\<lambda>y.
     Option.bind (index scores c) (\<lambda>z.
     Option.bind (index scores d) (\<lambda>w.
       Some ((x + y + z + w) / 4.0)))))"

function extendBounds_left :: "real list \<Rightarrow> real \<Rightarrow> int \<Rightarrow> int option" where
  "extendBounds_left scores threshold left =
     (if left \<ge> 4 then
        (case avg4 scores left (left - 1) (left - 2) (left - 3) of
           None \<Rightarrow> None
         | Some avg \<Rightarrow>
             if avg < threshold then Some left
             else extendBounds_left scores threshold (left - 1))
      else Some left)"
  by pat_completeness auto
termination
  by (relation "measure (\<lambda>(scores, threshold, left). nat left)") auto

function extendBounds_right :: "int \<Rightarrow> real list \<Rightarrow> real \<Rightarrow> int \<Rightarrow> int option" where
  "extendBounds_right n scores threshold right =
     (if right < n - 4 then
        (case avg4 scores right (right + 1) (right + 2) (right + 3) of
           None \<Rightarrow> None
         | Some avg \<Rightarrow>
             if avg < threshold then Some right
             else extendBounds_right n scores threshold (right + 1))
      else Some right)"
  by pat_completeness auto
termination
  by (relation "measure (\<lambda>(n, scores, threshold, right). nat (n - right))") auto

declare extendBounds_left.simps [simp del] extendBounds_right.simps [simp del]

definition extendBounds :: "int \<Rightarrow> int \<Rightarrow> real list \<Rightarrow> real \<Rightarrow> (int \<times> int) option" where
  "extendBounds seed n scores threshold =
     (case extendBounds_left scores threshold seed of
        None \<Rightarrow> None
      | Some left \<Rightarrow>
          (case extendBounds_right n scores threshold seed of
             None \<Rightarrow> None
           | Some right \<Rightarrow> Some (left, right)))"

function markRegion :: "bool list \<Rightarrow> int \<Rightarrow> int \<Rightarrow> bool list option" where
  "markRegion arr L R =
     (if L \<le> R then
        (if 0 \<le> L \<and> L < int (length arr) then markRegion (arr[nat L := True]) (L + 1) R
         else None)
      else Some arr)"
  by pat_completeness auto
termination
  by (relation "measure (\<lambda>(arr, L, R). nat (R + 1 - L))") auto

declare markRegion.simps [simp del]

section \<open>GOR: model, training and prediction\<close>

type_synonym matrix = "real list list"

record GORModel =
  WindowSize :: int
  AAList :: "string list"
  H :: matrix
  E :: matrix
  C :: matrix

datatype gor_error =
    OpenError | ParsePSSMError | ParseDSSPError | LengthMismatch | ScanError | Panic

text \<open>Go's integer division truncates towards zero.\<close>

definition go_div :: "int \<Rightarrow> int \<Rightarrow> int" where
  "go_div a b = sgn a * sgn b * (\<bar>a\<bar> div \<bar>b\<bar>)"

definition aaList :: "string list" where
  "aaList = [''A'', ''R'', ''N'', ''D'', ''C'', ''Q'', ''E'', ''G'', ''H'', ''I'',
             ''L'', ''K'', ''M'', ''F'', ''P'', ''S'', ''T'', ''W'', ''Y'', ''V'']"

definition sumProfile :: "matrix \<Rightarrow> real" where
  "sumProfile profile = foldl (\<lambda>s row. foldl (\<lambda>s v. s + v) s row) 0 profile"

text \<open>A loop whose body may panic: the first \<open>None\<close> ends it.\<close>

fun loop_opt :: "('a \<Rightarrow> 's \<Rightarrow> 's option) \<Rightarrow> 'a list \<Rightarrow> 's \<Rightarrow> 's option" where
  "loop_opt body [] s = Some s"
| "loop_opt body (x # xs) s =
     (case body x s of None \<Rightarrow> None | Some s' \<Rightarrow> loop_opt body xs s')"

text \<open>The bounds \<open>start\<close> and \<open>end\<close> of the window around position \<open>i\<close>, clipped to the profile.\<close>

definition window_start :: "int \<Rightarrow> int \<Rightarrow> int" where
  "window_start i halfWindow = (let start = i - halfWindow in if start < 0 then 0 else start)"

definition window_end :: "int \<Rightarrow> int \<Rightarrow> int \<Rightarrow> int" where
  "window_end i halfWindow len = (let e = i + halfWindow + 1 in if e > len then len else e)"

datatype ss_class = Helix | Strand | Coil

text \<open>The \<open>switch ss[i]\<close> of the training loop; the labels arrive with \<open>C\<close> replaced by \<open>-\<close>.\<close>

definition class_of :: "char \<Rightarrow> ss_class" where
  "class_of c = (if c = CHR ''H'' then Helix else if c = CHR ''E'' then Strand else Coil)"

definition get_mat :: "GORModel \<Rightarrow> ss_class \<Rightarrow> matrix" where
  "get_mat model c = (case c of Helix \<Rightarrow> H model | Strand \<Rightarrow> E model | Coil \<Rightarrow> C model)"

definition set_mat :: "GORModel \<Rightarrow> ss_class \<Rightarrow> matrix \<Rightarrow> GORModel" where
  "set_mat model c mat =
     (case c of Helix \<Rightarrow> model\<lparr>H := mat\<rparr> | Strand \<Rightarrow> model\<lparr>E := mat\<rparr> | Coil \<Rightarrow> model\<lparr>C := mat\<rparr>)"

text \<open>A read \<open>m[r][k]\<close> of a slice of slices.\<close>

definition index2 :: "'a list list \<Rightarrow> int \<Rightarrow> int \<Rightarrow> 'a option" where
  "index2 m r k = Option.bind (index m r) (\<lambda>row. index row k)"

text \<open>The statement \<open>mat[rel][k] += profile[j][k]\<close>.\<close>

definition add_cell :: "matrix \<Rightarrow> int \<Rightarrow> int \<Rightarrow> matrix \<Rightarrow> int \<Rightarrow> matrix option" where
  "add_cell mat rel k profile j =
     Option.bind (index2 mat rel k) (\<lambda>old.
     Option.bind (index2 profile j k) (\<lambda>v.
       Some (mat[nat rel := (mat ! nat rel)[nat k := old + v]])))"

definition accumulate_position :: "int \<Rightarrow> matrix \<Rightarrow> int \<Rightarrow> matrix \<Rightarrow> matrix option" where
  "accumulate_position halfWindow profile i mat =
     (let start = window_start i halfWindow;
          end = window_end i halfWindow (int (length profile))
      in loop_opt (\<lambda>j mat.
           let rel = j - i + halfWindow
           in loop_opt (\<lambda>k mat. add_cell mat rel k profile j)
                [0..int (length (profile ! nat i)) - 1] mat)
         [start..end - 1] mat)"

text \<open>The loop \<open>for i := 0; i < len(profile); i++\<close> over one training example.\<close>

definition accumulate_example :: "int \<Rightarrow> matrix \<Rightarrow> string \<Rightarrow> GORModel \<Rightarrow> GORModel option" where
  "accumulate_example halfWindow profile ss model =
     loop_opt (\<lambda>i model.
         let c = class_of (ss ! nat i)
         in map_option (set_mat model c) (accumulate_position halfWindow profile i (get_mat model c)))
       [0..int (length profile) - 1] model"

text \<open>
  One pass of the loop over the lines of the identifier file. Reading and parsing the two
  files of an identifier is input: \<open>ParsePSSM\<close> and \<open>ParseDSSP\<close> give, for each identifier,
  what the parser of that name returns. \<open>Inr\<close> is the model with which the loop goes on.
\<close>

definition train_step ::
  "(string \<Rightarrow> gor_error + matrix) \<Rightarrow> (string \<Rightarrow> gor_error + string) \<Rightarrow> int \<Rightarrow>
   string \<Rightarrow> GORModel \<Rightarrow> gor_error + GORModel" where
  "train_step ParsePSSM ParseDSSP halfWindow ident model =
     (if ident = [] then Inr model
      else case ParsePSSM ident of
        Inl err \<Rightarrow> Inl ParsePSSMError
      | Inr profile \<Rightarrow>
          if length profile = 0 \<or> sumProfile profile = 0 then Inr model
          else (case ParseDSSP ident of
            Inl err \<Rightarrow> Inl ParseDSSPError
          | Inr ss0 \<Rightarrow>
              let ss = map (\<lambda>c. if c = CHR ''C'' then CHR ''-'' else c) ss0
              in if length ss \<noteq> length profile then Inl LengthMismatch
                 else (case accumulate_example halfWindow profile ss model of
                         None \<Rightarrow> Inl Panic
                       | Some model' \<Rightarrow> Inr model')))"

fun train_loop ::
  "(string \<Rightarrow> gor_error + matrix) \<Rightarrow> (string \<Rightarrow> gor_error + string) \<Rightarrow> int \<Rightarrow>
   string list \<Rightarrow> GORModel \<Rightarrow> gor_error + GORModel" where
  "train_loop ParsePSSM ParseDSSP halfWindow [] model = Inr model"
| "train_loop ParsePSSM ParseDSSP halfWindow (ident # ids) model =
     (case train_step ParsePSSM ParseDSSP halfWindow ident model of
        Inl err \<Rightarrow> Inl err
      | Inr model' \<Rightarrow> train_loop ParsePSSM ParseDSSP halfWindow ids model')"

definition normalize_row :: "real list \<Rightarrow> real list" where
  "normalize_row row =
     (let sum = foldl (\<lambda>sum v. sum + v) 0 row
      in if sum > 0 then map (\<lambda>v. v / sum) row else row)"

definition normalize :: "matrix \<Rightarrow> matrix" where
  "normalize m = map normalize_row m"

definition newMat :: "int \<Rightarrow> matrix" where
  "newMat windowSize = replicate (nat windowSize) (replicate (length aaList) 0)"

text \<open>
  \<open>TrainGOR\<close>. \<open>openErr\<close> is the outcome of opening the identifier file, \<open>ids\<close> the lines
  the scanner delivers (trimmed), \<open>scanErr\<close> the outcome of \<open>scanner.Err()\<close> after the loop.
  A negative \<open>windowSize\<close> panics in \<open>make\<close>.
\<close>

definition TrainGOR ::
  "bool \<Rightarrow> string list \<Rightarrow> bool \<Rightarrow> (string \<Rightarrow> gor_error + matrix) \<Rightarrow>
   (string \<Rightarrow> gor_error + string) \<Rightarrow> int \<Rightarrow> gor_error + GORModel" where
  "TrainGOR openErr ids scanErr ParsePSSM ParseDSSP windowSize =
     (if windowSize < 0 then Inl Panic
      else
        let model = \<lparr>WindowSize = windowSize, AAList = aaList, H = newMat windowSize,
                     E = newMat windowSize, C = newMat windowSize\<rparr>
        in if openErr then Inl OpenError
           else
             let halfWindow = go_div (windowSize - 1) 2
             in case train_loop ParsePSSM ParseDSSP halfWindow ids model of
                  Inl err \<Rightarrow> Inl err
                | Inr model \<Rightarrow>
                    if scanErr then Inl ScanError
                    else Inr (model\<lparr>H := normalize (H model), E := normalize (E model),
                                    C := normalize (C model)\<rparr>))"






section \<open>Coverage of positions by regions\<close>

text \<open>A region covers the positions of its half-open interval \<open>[Start, End)\<close>.\<close>

definition covers :: "Region \<Rightarrow> int \<Rightarrow> bool" where
  "covers r i \<longleftrightarrow> Start r \<le> i \<and> i < End r"

definition covered :: "Region list \<Rightarrow> int \<Rightarrow> bool" where
  "covered rs i \<longleftrightarrow> (\<exists>r \<in> set rs. covers r i)"

text \<open>How many entries of a region list cover a position.\<close>

definition cover_count :: "Region list \<Rightarrow> int \<Rightarrow> nat" where
  "cover_count rs i = length (filter (\<lambda>r. covers r i) rs)"

text \<open>
  Two regions in list order that are sorted by \<open>Start\<close> and separated by a gap: the first one
  ends before the second one starts.
\<close>

definition apart :: "Region \<Rightarrow> Region \<Rightarrow> bool" where
  "apart a b \<longleftrightarrow> Start a \<le> Start b \<and> End a < Start b"

section \<open>GOR: shapes and the window score of the specification\<close>





section \<open>The end-to-end scenario\<close>

lemma ConformationParameter_E:
  "ConformationParameter (CHR ''E'') ''alpha'' = 1.51"
  "ConformationParameter (CHR ''E'') ''beta'' = 0.37"
  by (simp_all add: ConformationParameter_def alphaParam_def betaParam_def)

lemma AverageParam_E10:
  assumes "SEQUENCE g = ''EEEEEEEEEE''" "0 \<le> a" "a < b" "b \<le> 10"
  shows "AverageParam g \<lparr>Start = a, End = b\<rparr> ''alpha'' = 1.51"
    and "AverageParam g \<lparr>Start = a, End = b\<rparr> ''beta'' = 0.37"
proof -
  have sl: "slice ''EEEEEEEEEE'' a b = replicate (nat (b - a)) (CHR ''E'')"
  proof -
    have "''EEEEEEEEEE'' = replicate 10 (CHR ''E'')" by (simp add: numeral_eq_Suc)
    then show ?thesis using assms by (simp add: slice_def min_def)
  qed
  have fl: "foldl (\<lambda>t r. t + ConformationParameter r c) z (replicate n (CHR ''E''))
            = z + real n * ConformationParameter (CHR ''E'') c" for c z n
    by (induction n arbitrary: z) (simp_all add: algebra_simps)
  have avg: "AverageParam g \<lparr>Start = a, End = b\<rparr> c = ConformationParameter (CHR ''E'') c" for c
  proof -
    have n: "real (nat (b - a)) \<noteq> 0" using assms by simp
    have "AverageParam g \<lparr>Start = a, End = b\<rparr> c
            = real (nat (b - a)) * ConformationParameter (CHR ''E'') c / real (nat (b - a))"
      using assms by (simp add: AverageParam_def sl fl)
    also have "\<dots> = ConformationParameter (CHR ''E'') c"
      using n by (rule nonzero_mult_div_cancel_left)
    finally show ?thesis .
  qed
  show "AverageParam g \<lparr>Start = a, End = b\<rparr> ''alpha'' = 1.51"
    by (simp add: avg ConformationParameter_E)
  show "AverageParam g \<lparr>Start = a, End = b\<rparr> ''beta'' = 0.37"
    by (simp add: avg ConformationParameter_E)
qed

lemma E10_nucleation:
  assumes "SEQUENCE g = ''EEEEEEEEEE''"
  shows "FindNucleationRegion g 4 6 1 ''alpha'' =
           Some [\<lparr>Start = 0, End = 6\<rparr>, \<lparr>Start = 1, End = 7\<rparr>, \<lparr>Start = 2, End = 8\<rparr>,
                 \<lparr>Start = 3, End = 9\<rparr>, \<lparr>Start = 4, End = 10\<rparr>]"
    and "FindNucleationRegion g 3 5 1 ''beta'' = Some []"
  using assms
  by (simp_all add: FindNucleationRegion_def FindNucleationRegion_loop.simps
        IsNucleationRegion_def slice_def ConformationHasHigestAverage_def
        AverageParam_E10 ConformationParameter_E)

lemma E10_extension:
  assumes "SEQUENCE g = ''EEEEEEEEEE''"
  shows "ExtendedRegions g [\<lparr>Start = 0, End = 6\<rparr>, \<lparr>Start = 1, End = 7\<rparr>, \<lparr>Start = 2, End = 8\<rparr>,
                 \<lparr>Start = 3, End = 9\<rparr>, \<lparr>Start = 4, End = 10\<rparr>] ''alpha'' =
           replicate 5 \<lparr>Start = 0, End = 10\<rparr>"
  using assms
  by (simp add: extend_N.simps extend_C.simps ShiftWindow_def AverageParam_E10 numeral_eq_Suc)


lemma E10_filter:
  assumes "SEQUENCE g = ''EEEEEEEEEE''"
  shows "FilterExtendedRegions g (replicate 5 \<lparr>Start = 0, End = 10\<rparr>) ''alpha'' 1.03 =
           replicate 5 \<lparr>Start = 0, End = 10\<rparr>"
  using assms by (simp add: FilterExtendedRegions_def AverageParam_E10)

lemma E10_merge:
  "MergeOverlappingRegions (replicate 5 \<lparr>Start = 0, End = 10\<rparr>) = [\<lparr>Start = 0, End = 10\<rparr>]"
  "MergeOverlappingRegions [] = []"
  by (simp_all add: MergeOverlappingRegions_def TryMerging_def numeral_eq_Suc)

lemma E10_resolve:
  assumes "SEQUENCE g = ''EEEEEEEEEE''"
  shows "resolve_and_assemble g [\<lparr>Start = 0, End = 10\<rparr>] [] =
    Some \<lparr>alphaFinal_out = [\<lparr>Start = 0, End = 10\<rparr>], betaFinal_out = [],
          coilFinal_out = [], predictedSequence_out = ''HHHHHHHHHH''\<rparr>"
  using assms
  by (simp add: resolve_and_assemble_def SolveOverlaps_def FindCoilRegions_def
        PredictSequenceFromRegions_def mark_regions_def mark_loop.simps coil_loop.simps
        paint_loop.simps numeral_eq_Suc)

text \<open>
  Claim C1. With \<open>SEQUENCE\<close> set to the ten residues \<open>EEEEEEEEEE\<close>, whose helix propensity is
  1.51 and strand propensity 0.37, the helix nucleation (threshold 4, window 6, minimum 1.0)
  keeps all five windows, extension takes each of them to both ends of the sequence, the
  filter at 1.03 keeps them, and \<open>main\<close> ends with the single helix region \<open>[0, 10)\<close>, no strand
  and no coil region, and the label string \<open>HHHHHHHHHH\<close>.
\<close>

theorem C1_all_E_sequence_is_helix:
  fixes g0 :: "'a globals_scheme"
  defines "g \<equiv> g0\<lparr>SEQUENCE := ''EEEEEEEEEE''\<rparr>"
  defines "windows \<equiv> [\<lparr>Start = 0, End = 6\<rparr>, \<lparr>Start = 1, End = 7\<rparr>, \<lparr>Start = 2, End = 8\<rparr>,
                 \<lparr>Start = 3, End = 9\<rparr>, \<lparr>Start = 4, End = 10\<rparr>]"
  shows "ConformationParameter (CHR ''E'') ''alpha'' = 1.51 \<and>
         ConformationParameter (CHR ''E'') ''beta'' = 0.37 \<and>
         FindNucleationRegion g 4 6 1.0 ''alpha'' = Some windows \<and>
         ExtendedRegions g windows ''alpha'' = replicate 5 \<lparr>Start = 0, End = 10\<rparr> \<and>
         FilterExtendedRegions g (replicate 5 \<lparr>Start = 0, End = 10\<rparr>) ''alpha'' 1.03 =
           replicate 5 \<lparr>Start = 0, End = 10\<rparr> \<and>
         main g0 ''EEEEEEEEEE'' =
           Some (g, \<lparr>alphaFinal_out = [\<lparr>Start = 0, End = 10\<rparr>], betaFinal_out = [],
                     coilFinal_out = [], predictedSequence_out = ''HHHHHHHHHH''\<rparr>)"
proof -
  let ?five = "replicate 5 \<lparr>Start = 0, End = 10\<rparr>"
  have s: "SEQUENCE g = ''EEEEEEEEEE''" by (simp add: g_def)
  have a1: "FindNucleationRegion g 4 6 1.0 ''alpha'' = Some windows"
    using E10_nucleation(1) [OF s] by (simp add: windows_def)
  have b1: "FindNucleationRegion g 3 5 1.0 ''beta'' = Some []"
    using E10_nucleation(2) [OF s] by simp
  have a2: "ExtendedRegions g windows ''alpha'' = ?five"
    using E10_extension [OF s] by (simp only: windows_def)
  have b2: "ExtendedRegions g [] ''beta'' = []" by simp
  have a3: "FilterExtendedRegions g ?five ''alpha'' 1.03 = ?five"
    by (rule E10_filter [OF s])
  have b3: "FilterExtendedRegions g [] ''beta'' 1.05 = []"
    by (simp add: FilterExtendedRegions_def)
  have m: "main g0 ''EEEEEEEEEE'' =
           Some (g, \<lparr>alphaFinal_out = [\<lparr>Start = 0, End = 10\<rparr>], betaFinal_out = [],
                     coilFinal_out = [], predictedSequence_out = ''HHHHHHHHHH''\<rparr>)"
    unfolding main_def Let_def g_def [symmetric]
    by (simp only: a1 b1 a2 b2 a3 b3 E10_merge E10_resolve [OF s] option.case)
  show ?thesis
    using ConformationParameter_E a1 a2 a3 m by simp
qed

section \<open>Conflict resolution and coil fill\<close>

lemma overlap_loop_iff:
  "overlap_loop g reg1 conf1 regions2 conf2 \<longleftrightarrow>
     (\<exists>reg2 \<in> set regions2. AreOverlapping reg1 conf1 reg2 conf2 \<and>
        StrongerAffinity g reg1 conf1 reg2 conf2 = reg2)"
  by (induction regions2) auto

lemma fold_keep_true:
  "fold (\<lambda>reg1 m. m(reg1 \<mapsto> True)) rs m0 r = (if r \<in> set rs then Some True else m0 r)"
  by (induction rs arbitrary: m0) auto

lemma fold_keep_false:
  "fold (\<lambda>reg1 m. if P reg1 then m(reg1 \<mapsto> False) else m) rs m0 r =
     (if r \<in> set rs \<and> P r then Some False else m0 r)"
  by (induction rs arbitrary: m0) auto

lemma SolveOverlaps_filter:
  "SolveOverlaps g regions1 conf1 regions2 conf2 =
     filter (\<lambda>reg1. \<not> overlap_loop g reg1 conf1 regions2 conf2) regions1"
  unfolding SolveOverlaps_def Let_def
  by (rule filter_cong) (auto simp: fold_keep_false fold_keep_true)

lemma StrongerAffinity_is_reg2:
  "StrongerAffinity g reg1 conf1 reg2 conf2 = reg2 \<longleftrightarrow>
     reg1 = reg2 \<or> AverageParam g reg2 conf2 > AverageParam g reg1 conf1 \<or>
     (AverageParam g reg2 conf2 = AverageParam g reg1 conf1 \<and> conf1 \<noteq> ''alpha'')"
  by (auto simp: StrongerAffinity_def Let_def)

lemma survivors_do_not_overlap:
  assumes "a \<in> set (SolveOverlaps g A ''alpha'' B ''beta'')"
      and "b \<in> set (SolveOverlaps g B ''beta'' A ''alpha'')"
  shows "\<not> AreOverlapping a ''alpha'' b ''beta''"
proof
  assume ov: "AreOverlapping a ''alpha'' b ''beta''"
  then have ov': "AreOverlapping b ''beta'' a ''alpha''"
    by (auto simp: AreOverlapping_def)
  from assms have "a \<in> set A" "b \<in> set B"
    and na: "\<not> overlap_loop g a ''alpha'' B ''beta''"
    and nb: "\<not> overlap_loop g b ''beta'' A ''alpha''"
    by (auto simp: SolveOverlaps_filter)
  with ov ov' have "StrongerAffinity g a ''alpha'' b ''beta'' \<noteq> b"
    and "StrongerAffinity g b ''beta'' a ''alpha'' \<noteq> a"
    by (auto simp: overlap_loop_iff)
  then show False
    by (auto simp: StrongerAffinity_is_reg2)
qed

lemma length_mark_loop [simp]: "length (mark_loop a i e n) = length a"
  by (induction a i e n rule: mark_loop.induct) (subst mark_loop.simps, auto)

lemma nth_mark_loop:
  "k < length a \<Longrightarrow>
   mark_loop a i e n ! k \<longleftrightarrow> a ! k \<or> (i \<le> int k \<and> int k < e \<and> int k < n)"
proof (induction a i e n rule: mark_loop.induct)
  case (1 a i e n)
  show ?case
  proof (cases "i < e \<and> i < n")
    case True
    define a' where "a' = (if i \<ge> 0 then a[nat i := True] else a)"
    have len: "k < length a'" using "1.prems" by (simp add: a'_def)
    have step: "mark_loop a i e n = mark_loop a' (i + 1) e n"
      using True by (subst mark_loop.simps) (simp add: a'_def)
    have a'k: "a' ! k \<longleftrightarrow> a ! k \<or> i = int k"
    proof (cases "0 \<le> i \<and> nat i < length a")
      case True
      then show ?thesis
        using "1.prems" by (auto simp: a'_def nth_list_update)
    next
      case False
      then have "a' = a" and "i \<noteq> int k"
        using "1.prems" by (auto simp: a'_def list_update_beyond)
      then show ?thesis by simp
    qed
    have "mark_loop a' (i + 1) e n ! k \<longleftrightarrow>
            a' ! k \<or> (i + 1 \<le> int k \<and> int k < e \<and> int k < n)"
      using "1.IH" [OF True] len unfolding a'_def by simp
    then show ?thesis
      using True unfolding step a'k by auto
  next
    case False
    then show ?thesis
      by (subst mark_loop.simps) auto
  qed
qed

lemma length_mark_regions [simp]: "length (mark_regions rs n a) = length a"
  by (induction rs arbitrary: a) (auto simp: mark_regions_def)

lemma nth_mark_regions:
  "k < length a \<Longrightarrow>
   mark_regions rs n a ! k \<longleftrightarrow> a ! k \<or> (int k < n \<and> covered rs (int k))"
proof (induction rs arbitrary: a)
  case Nil
  then show ?case by (simp add: mark_regions_def covered_def)
next
  case (Cons r rs)
  have "mark_regions (r # rs) n a = mark_regions rs n (mark_loop a (Start r) (End r) n)"
    by (simp add: mark_regions_def)
  then show ?case
    using Cons by (auto simp: nth_mark_loop covered_def covers_def)
qed

lemma cover_count_append [simp]: "cover_count (xs @ ys) i = cover_count xs i + cover_count ys i"
  by (simp add: cover_count_def)

lemma cover_count_single [simp]:
  "cover_count [\<lparr>Start = s, End = e\<rparr>] i = (if s \<le> i \<and> i < e then 1 else 0)"
  by (simp add: cover_count_def covers_def)

lemma cover_count_coil_loop:
  assumes "i \<le> length a" "inCoil \<longrightarrow> cs \<le> int i"
  shows "cover_count (coil_loop a i acc inCoil cs) k =
           cover_count acc k +
           (if (int i \<le> k \<and> k < int (length a) \<and> \<not> a ! nat k) \<or> (inCoil \<and> cs \<le> k \<and> k < int i)
            then 1 else 0)"
  using assms
proof (induction a i acc inCoil cs rule: coil_loop.induct)
  case (1 a i acc inCoil cs)
  show ?case
  proof (cases "i < length a")
    case False
    with 1 show ?thesis
      by (subst coil_loop.simps) auto
  next
    case True
    have here: "(int i \<le> k \<and> k < int (length a) \<and> \<not> a ! nat k) \<longleftrightarrow>
                  (k = int i \<and> \<not> a ! i) \<or> (int (i + 1) \<le> k \<and> k < int (length a) \<and> \<not> a ! nat k)"
    proof (cases "k = int i")
      case True
      then show ?thesis using \<open>i < length a\<close> by auto
    next
      case False
      then show ?thesis by auto
    qed
    have before: "k < int i \<longleftrightarrow> k < int (i + 1) \<and> k \<noteq> int i"
      by auto
    show ?thesis
    proof (cases "a ! i")
      case pred: True
      show ?thesis
      proof (cases inCoil)
        case True
        have "cover_count (coil_loop a i acc inCoil cs) k =
                cover_count (coil_loop a (i + 1) (acc @ [\<lparr>Start = cs, End = int i\<rparr>]) False (- 1)) k"
          using \<open>i < length a\<close> pred True by (subst coil_loop.simps) simp
        also have "\<dots> = cover_count (acc @ [\<lparr>Start = cs, End = int i\<rparr>]) k +
                (if (int (i + 1) \<le> k \<and> k < int (length a) \<and> \<not> a ! nat k) then 1 else 0)"
          using "1.IH"(3) [OF \<open>i < length a\<close> _ True] pred \<open>i < length a\<close> by simp
        finally show ?thesis
          using pred True unfolding here by auto
      next
        case False
        have "cover_count (coil_loop a i acc inCoil cs) k =
                cover_count (coil_loop a (i + 1) acc inCoil cs) k"
          using \<open>i < length a\<close> pred False by (subst coil_loop.simps) simp
        also have "\<dots> = cover_count acc k +
                (if (int (i + 1) \<le> k \<and> k < int (length a) \<and> \<not> a ! nat k) then 1 else 0)"
          using "1.IH"(4) [OF \<open>i < length a\<close> _ False] pred False \<open>i < length a\<close> by simp
        finally show ?thesis
          using pred False unfolding here by auto
      qed
    next
      case unpred: False
      show ?thesis
      proof (cases inCoil)
        case True
        have "cover_count (coil_loop a i acc inCoil cs) k =
                cover_count (coil_loop a (i + 1) acc inCoil cs) k"
          using \<open>i < length a\<close> unpred True by (subst coil_loop.simps) simp
        also have "\<dots> = cover_count acc k +
                (if (int (i + 1) \<le> k \<and> k < int (length a) \<and> \<not> a ! nat k) \<or>
                    (cs \<le> k \<and> k < int (i + 1)) then 1 else 0)"
          using "1.IH"(2) [OF \<open>i < length a\<close> unpred] True "1.prems" \<open>i < length a\<close> by simp
        finally show ?thesis
          using unpred True "1.prems" unfolding here by auto
      next
        case False
        have "cover_count (coil_loop a i acc inCoil cs) k =
                cover_count (coil_loop a (i + 1) acc True (int i)) k"
          using \<open>i < length a\<close> unpred False by (subst coil_loop.simps) simp
        also have "\<dots> = cover_count acc k +
                (if (int (i + 1) \<le> k \<and> k < int (length a) \<and> \<not> a ! nat k) \<or>
                    (int i \<le> k \<and> k < int (i + 1)) then 1 else 0)"
          using "1.IH"(1) [OF \<open>i < length a\<close> unpred False] \<open>i < length a\<close> by simp
        finally show ?thesis
          using unpred False unfolding here by auto
      qed
    qed
  qed
qed

lemma cover_count_FindCoilRegions:
  assumes "0 \<le> i" "i < int (length (SEQUENCE g))"
  shows "cover_count (FindCoilRegions g alphaFinal betaFinal) i =
           (if covered alphaFinal i \<or> covered betaFinal i then 0 else 1)"
proof -
  define n where "n = length (SEQUENCE g)"
  define a where "a = mark_regions betaFinal (int n) (mark_regions alphaFinal (int n) (replicate n False))"
  have len: "length a = n" by (simp add: a_def)
  have k: "nat i < n" "int (nat i) = i" using assms by (auto simp: n_def)
  have ak: "a ! nat i \<longleftrightarrow> covered alphaFinal i \<or> covered betaFinal i"
    using k by (auto simp: a_def nth_mark_regions)
  have "FindCoilRegions g alphaFinal betaFinal = coil_loop a 0 [] False (- 1)"
    using k by (auto simp: FindCoilRegions_def Let_def a_def n_def)
  moreover have "cover_count (coil_loop a 0 [] False (- 1)) i =
      cover_count [] i +
      (if (int 0 \<le> i \<and> i < int (length a) \<and> \<not> a ! nat i) \<or> (False \<and> - 1 \<le> i \<and> i < int 0)
       then 1 else 0)"
    by (rule cover_count_coil_loop) simp_all
  moreover have "cover_count [] i = 0"
    by (simp add: cover_count_def)
  ultimately show ?thesis
    using assms ak len by (simp add: n_def)
qed

text \<open>
  Claim C2. Whatever the sequence and the two region lists handed to the two calls of
  \<open>SolveOverlaps\<close> in \<open>main\<close>, every position \<open>0 \<le> i < len(SEQUENCE)\<close> lies in exactly one of
  the three results: in a surviving helix region and then in no strand and no coil region, or
  in a surviving strand region and then in no helix and no coil region, or in neither and then
  in exactly one coil region of \<open>FindCoilRegions\<close>.
\<close>

theorem C2_total_coverage:
  fixes g :: "'a globals_scheme" and alphaRegions betaRegions :: "Region list"
  defines "alphaFinal \<equiv> SolveOverlaps g alphaRegions ''alpha'' betaRegions ''beta''"
  defines "betaFinal \<equiv> SolveOverlaps g betaRegions ''beta'' alphaRegions ''alpha''"
  defines "coilFinal \<equiv> FindCoilRegions g alphaFinal betaFinal"
  assumes "0 \<le> i" "i < int (length (SEQUENCE g))"
  shows "(covered alphaFinal i \<and> \<not> covered betaFinal i \<and> cover_count coilFinal i = 0) \<or>
         (\<not> covered alphaFinal i \<and> covered betaFinal i \<and> cover_count coilFinal i = 0) \<or>
         (\<not> covered alphaFinal i \<and> \<not> covered betaFinal i \<and> cover_count coilFinal i = 1)"
proof -
  have "\<not> (covered alphaFinal i \<and> covered betaFinal i)"
  proof
    assume "covered alphaFinal i \<and> covered betaFinal i"
    then obtain a b where a: "a \<in> set alphaFinal" "covers a i"
      and b: "b \<in> set betaFinal" "covers b i"
      by (auto simp: covered_def)
    then have "AreOverlapping a ''alpha'' b ''beta''"
      by (auto simp: AreOverlapping_def covers_def)
    with a(1) b(1) show False
      using survivors_do_not_overlap unfolding alphaFinal_def betaFinal_def by blast
  qed
  moreover have "cover_count coilFinal i =
      (if covered alphaFinal i \<or> covered betaFinal i then 0 else 1)"
    unfolding coilFinal_def using assms(4,5) by (rule cover_count_FindCoilRegions)
  ultimately show ?thesis by auto
qed

theorem C2_total_coverage_witness:
  "(0::int) \<le> 14 \<and>
   (14::int) < int (length (SEQUENCE \<lparr>SEQUENCE = ''MMMMMMLLLLLGGGGGGGGVVVVVVVV''\<rparr>)) \<and>
   cover_count
     (FindCoilRegions \<lparr>SEQUENCE = ''MMMMMMLLLLLGGGGGGGGVVVVVVVV''\<rparr>
        (SolveOverlaps \<lparr>SEQUENCE = ''MMMMMMLLLLLGGGGGGGGVVVVVVVV''\<rparr>
           [\<lparr>Start = 0, End = 12\<rparr>] ''alpha'' [\<lparr>Start = 17, End = 27\<rparr>] ''beta'')
        (SolveOverlaps \<lparr>SEQUENCE = ''MMMMMMLLLLLGGGGGGGGVVVVVVVV''\<rparr>
           [\<lparr>Start = 17, End = 27\<rparr>] ''beta'' [\<lparr>Start = 0, End = 12\<rparr>] ''alpha'')) 14 = 1"
proof -
  let ?g = "\<lparr>SEQUENCE = ''MMMMMMLLLLLGGGGGGGGVVVVVVVV''\<rparr>"
  have h1: "(0::int) \<le> 14" by simp
  have h2: "(14::int) < int (length (SEQUENCE ?g))" by simp
  have a: "SolveOverlaps ?g [\<lparr>Start = 0, End = 12\<rparr>] ''alpha'' [\<lparr>Start = 17, End = 27\<rparr>] ''beta''
             = [\<lparr>Start = 0, End = 12\<rparr>]"
    by (simp add: SolveOverlaps_def AreOverlapping_def)
  have b: "SolveOverlaps ?g [\<lparr>Start = 17, End = 27\<rparr>] ''beta'' [\<lparr>Start = 0, End = 12\<rparr>] ''alpha''
             = [\<lparr>Start = 17, End = 27\<rparr>]"
    by (simp add: SolveOverlaps_def AreOverlapping_def)
  have c: "\<not> covered [\<lparr>Start = 0, End = 12\<rparr>] 14" "\<not> covered [\<lparr>Start = 17, End = 27\<rparr>] 14"
    by (simp_all add: covered_def covers_def)
  show ?thesis
    using C2_total_coverage [OF h1 h2, of "[\<lparr>Start = 0, End = 12\<rparr>]" "[\<lparr>Start = 17, End = 27\<rparr>]"] c
    unfolding a b by simp
qed

lemma SolveOverlaps_keeps_iff:
  "reg1 \<in> set (SolveOverlaps g regions1 conf1 regions2 conf2) \<longleftrightarrow>
     reg1 \<in> set regions1 \<and>
     \<not> (\<exists>reg2 \<in> set regions2. AreOverlapping reg1 conf1 reg2 conf2 \<and>
          (reg1 = reg2 \<or> AverageParam g reg2 conf2 > AverageParam g reg1 conf1 \<or>
           (AverageParam g reg2 conf2 = AverageParam g reg1 conf1 \<and> conf1 \<noteq> ''alpha'')))"
  by (simp add: SolveOverlaps_filter overlap_loop_iff StrongerAffinity_is_reg2)

text \<open>
  Claim C3. On the sequence \<open>MMMMMMLLLLL\<close> the helix region \<open>[0, 11)\<close> and the strand region
  \<open>[0, 11)\<close> overlap, the helix average 1475/1100 is strictly above the strand average
  1280/1100, and \<open>StrongerAffinity\<close> names the helix region as the winner; yet \<open>SolveOverlaps\<close>
  drops the helix region as well as the strand region, because the winner equals \<open>reg2\<close> field
  by field. \<open>main\<close> reaches this state on that sequence and labels every residue coil.
\<close>

theorem C3_stronger_helix_with_equal_coordinates_is_dropped:
  "AreOverlapping \<lparr>Start = 0, End = 11\<rparr> ''alpha'' \<lparr>Start = 0, End = 11\<rparr> ''beta'' \<and>
   AverageParam \<lparr>SEQUENCE = ''MMMMMMLLLLL''\<rparr> \<lparr>Start = 0, End = 11\<rparr> ''alpha'' = 1475 / 1100 \<and>
   AverageParam \<lparr>SEQUENCE = ''MMMMMMLLLLL''\<rparr> \<lparr>Start = 0, End = 11\<rparr> ''beta'' = 1280 / 1100 \<and>
   StrongerAffinity \<lparr>SEQUENCE = ''MMMMMMLLLLL''\<rparr>
     \<lparr>Start = 0, End = 11\<rparr> ''alpha'' \<lparr>Start = 0, End = 11\<rparr> ''beta'' = \<lparr>Start = 0, End = 11\<rparr> \<and>
   SolveOverlaps \<lparr>SEQUENCE = ''MMMMMMLLLLL''\<rparr>
     [\<lparr>Start = 0, End = 11\<rparr>] ''alpha'' [\<lparr>Start = 0, End = 11\<rparr>] ''beta'' = [] \<and>
   SolveOverlaps \<lparr>SEQUENCE = ''MMMMMMLLLLL''\<rparr>
     [\<lparr>Start = 0, End = 11\<rparr>] ''beta'' [\<lparr>Start = 0, End = 11\<rparr>] ''alpha'' = [] \<and>
   main \<lparr>SEQUENCE = ''''\<rparr> ''MMMMMMLLLLL'' =
     Some (\<lparr>SEQUENCE = ''MMMMMMLLLLL''\<rparr>,
           \<lparr>alphaFinal_out = [], betaFinal_out = [], coilFinal_out = [\<lparr>Start = 0, End = 11\<rparr>],
            predictedSequence_out = ''CCCCCCCCCCC''\<rparr>)"
  by code_simp

section \<open>Merging\<close>

lemma merge_loop_step:
  "merge_loop current (next # rest) mergedRegions =
     (if End current \<ge> Start next
      then merge_loop \<lparr>Start = min (Start current) (Start next),
                       End = max (End current) (End next)\<rparr> rest mergedRegions
      else merge_loop next rest (mergedRegions @ [current]))"
  by (simp add: TryMerging_def)

lemma merge_loop_apart:
  assumes "sorted_wrt apart acc"
      and "\<forall>a \<in> set acc. apart a current"
      and "\<forall>x \<in> set rest. Start current \<le> Start x"
      and "sorted (map Start rest)"
  shows "sorted_wrt apart (merge_loop current rest acc)"
  using assms
proof (induction rest arbitrary: current acc)
  case Nil
  then show ?case by (simp add: sorted_wrt_append)
next
  case (Cons nxt rest)
  show ?case
  proof (cases "End current \<ge> Start nxt")
    case True
    let ?m = "\<lparr>Start = min (Start current) (Start nxt), End = max (End current) (End nxt)\<rparr>"
    have st: "Start ?m = Start current" using Cons.prems(3) by (simp add: min_def)
    have "sorted_wrt apart (merge_loop ?m rest acc)"
    proof (rule Cons.IH)
      show "sorted_wrt apart acc" by fact
      show "\<forall>a \<in> set acc. apart a ?m"
        using Cons.prems(2) st by (simp add: apart_def)
      show "\<forall>x \<in> set rest. Start ?m \<le> Start x"
        using Cons.prems(3) st by simp
      show "sorted (map Start rest)" using Cons.prems(4) by simp
    qed
    then show ?thesis using True by (simp add: merge_loop_step del: merge_loop.simps)
  next
    case False
    have "sorted_wrt apart (merge_loop nxt rest (acc @ [current]))"
    proof (rule Cons.IH)
      show "sorted_wrt apart (acc @ [current])"
        using Cons.prems(1,2) by (simp add: sorted_wrt_append)
      show "\<forall>a \<in> set (acc @ [current]). apart a nxt"
        using Cons.prems(2,3) False by (auto simp: apart_def)
      show "\<forall>x \<in> set rest. Start nxt \<le> Start x"
        using Cons.prems(4) by simp
      show "sorted (map Start rest)" using Cons.prems(4) by simp
    qed
    then show ?thesis using False by (simp add: merge_loop_step del: merge_loop.simps)
  qed
qed

lemma merge_loop_sorted_input:
  assumes "sorted (map Start (first # rest))"
  shows "sorted_wrt apart (merge_loop first rest [])"
  using assms by (intro merge_loop_apart) auto

lemma MergeOverlappingRegions_apart:
  "sorted_wrt apart (MergeOverlappingRegions regions)"
proof (cases "length regions < 2")
  case True
  then have "regions = [] \<or> (\<exists>r. regions = [r])"
    by (cases regions) (auto simp: length_Suc_conv)
  then show ?thesis using True by (auto simp: MergeOverlappingRegions_def)
next
  case False
  then have ne: "sort_key Start regions \<noteq> []"
    by (metis length_sort list.size(3) zero_less_numeral)
  have "sorted (map Start (sort_key Start regions))" by (rule sorted_sort_key)
  then have "sorted (map Start (hd (sort_key Start regions) # tl (sort_key Start regions)))"
    using ne by simp
  then have "sorted_wrt apart
      (merge_loop (hd (sort_key Start regions)) (tl (sort_key Start regions)) [])"
    by (rule merge_loop_sorted_input)
  then show ?thesis
    using False by (simp add: MergeOverlappingRegions_def Let_def)
qed

lemma apart_disjoint: "apart a b \<Longrightarrow> \<not> (covers a i \<and> covers b i)"
  by (auto simp: apart_def covers_def)

lemma cover_count_apart: "sorted_wrt apart rs \<Longrightarrow> cover_count rs i \<le> 1"
proof (induction rs)
  case Nil
  then show ?case by (simp add: cover_count_def)
next
  case (Cons r rs)
  then have "covers r i \<Longrightarrow> filter (\<lambda>x. covers x i) rs = []"
    by (auto simp: filter_empty_conv dest: apart_disjoint)
  then show ?case using Cons by (auto simp: cover_count_def)
qed

text \<open>
  Claim C4. \<open>MergeOverlappingRegions\<close> returns a list of fewer than two regions as it is and
  otherwise runs its loop over the regions sorted by \<open>Start\<close> (a permutation of the input).
  The loop combines \<open>current\<close> with \<open>next\<close> into \<open>[min of the starts, max of the ends)\<close> exactly
  when \<open>current.End >= next.Start\<close>: \<open>[0,5)\<close> and \<open>[5,8)\<close> give \<open>[0,8)\<close>, while \<open>[0,5)\<close> and
  \<open>[6,8)\<close> stay two regions. The result is sorted by \<open>Start\<close> and its regions are pairwise
  disjoint: each ends before the next starts, and no position is covered twice.
\<close>

theorem C4_merge:
  "mset (sort_key Start regions) = mset regions \<and>
   sorted (map Start (sort_key Start regions)) \<and>
   MergeOverlappingRegions regions =
     (if length regions < 2 then regions
      else merge_loop (hd (sort_key Start regions)) (tl (sort_key Start regions)) []) \<and>
   merge_loop current [] mergedRegions = mergedRegions @ [current] \<and>
   merge_loop current (next # rest) mergedRegions =
     (if End current \<ge> Start next
      then merge_loop \<lparr>Start = min (Start current) (Start next),
                       End = max (End current) (End next)\<rparr> rest mergedRegions
      else merge_loop next rest (mergedRegions @ [current])) \<and>
   MergeOverlappingRegions [\<lparr>Start = 0, End = 5\<rparr>, \<lparr>Start = 5, End = 8\<rparr>] = [\<lparr>Start = 0, End = 8\<rparr>] \<and>
   MergeOverlappingRegions [\<lparr>Start = 0, End = 5\<rparr>, \<lparr>Start = 6, End = 8\<rparr>] =
     [\<lparr>Start = 0, End = 5\<rparr>, \<lparr>Start = 6, End = 8\<rparr>] \<and>
   sorted_wrt apart (MergeOverlappingRegions regions) \<and>
   sorted (map Start (MergeOverlappingRegions regions)) \<and>
   cover_count (MergeOverlappingRegions regions) i \<le> 1"
proof -
  have ex: "MergeOverlappingRegions [\<lparr>Start = 0, End = 5\<rparr>, \<lparr>Start = 5, End = 8\<rparr>] = [\<lparr>Start = 0, End = 8\<rparr>]"
    "MergeOverlappingRegions [\<lparr>Start = 0, End = 5\<rparr>, \<lparr>Start = 6, End = 8\<rparr>] =
     [\<lparr>Start = 0, End = 5\<rparr>, \<lparr>Start = 6, End = 8\<rparr>]"
    by (simp_all add: MergeOverlappingRegions_def TryMerging_def)
  have ap: "sorted_wrt apart (MergeOverlappingRegions regions)"
    by (rule MergeOverlappingRegions_apart)
  then have "sorted_wrt (\<lambda>a b. Start a \<le> Start b) (MergeOverlappingRegions regions)"
    by (rule sorted_wrt_mono_rel [rotated]) (simp add: apart_def)
  then have so: "sorted (map Start (MergeOverlappingRegions regions))"
    by (simp add: sorted_map)
  show ?thesis
    using ex ap so cover_count_apart [OF ap, of i] merge_loop_step [of current "next" rest mergedRegions]
    by (simp add: MergeOverlappingRegions_def Let_def del: merge_loop.simps(2))
qed

section \<open>The nucleation test\<close>






section \<open>GOR prediction\<close>













end
